theory Spec2Isabelle
  imports Complex_Main "HOL-Library.Product_Lexorder" "HOL-Library.Char_ord"
    "HOL-Library.List_Lexorder"
begin

section \<open>Juke Jam: the retrieval and ranking engine of music_search.py\<close>

text \<open>
  The development embeds the functions of \<^verbatim>\<open>backend/musicSearch/music_search.py\<close>.
  Conventions of the embedding:
  \<^item> a Python \<^verbatim>\<open>float\<close> is a \<^typ>\<open>real\<close>: the arithmetic is exact, so rounding of
    IEEE doubles, overflow, underflow and NaN are outside the model; where \<^verbatim>\<open>round\<close>
    depends on the double, at a decimal tie, the direction is a parameter \<open>tie_up\<close>
    of the functions that round;
  \<^item> a Python \<^verbatim>\<open>str\<close> is a \<^typ>\<open>string\<close> of ASCII characters;
  \<^item> a track identifier is an \<^typ>\<open>int\<close>;
  \<^item> a \<^verbatim>\<open>dict\<close> is a map, a Python \<^verbatim>\<open>set\<close> a HOL set, \<^verbatim>\<open>Optional[T]\<close> an option;
  \<^item> an exception is a value \<open>Inl e\<close> of a sum type.
\<close>

subsection \<open>Python primitives\<close>

datatype py_error = ZeroDivisionError | KeyError

text \<open>\<^verbatim>\<open>str.lower()\<close> on an ASCII string.\<close>

definition lower_char :: "char \<Rightarrow> char" where
  "lower_char c =
     (if (65::nat) \<le> of_char c \<and> of_char c \<le> (90::nat)
      then char_of (of_char c + (32::nat)) else c)"

definition lower :: "string \<Rightarrow> string" where
  "lower s = map lower_char s"

text \<open>Truth value of an \<^verbatim>\<open>Optional[str]\<close>: \<^verbatim>\<open>None\<close> and \<^verbatim>\<open>""\<close> are false.\<close>

fun truthy :: "'a list option \<Rightarrow> bool" where
  "truthy None = False"
| "truthy (Some xs) = (xs \<noteq> [])"

text \<open>True division of two floats: a zero divisor raises.\<close>

definition py_div :: "real \<Rightarrow> real \<Rightarrow> py_error + real" where
  "py_div x y = (if y = 0 then Inl ZeroDivisionError else Inr (x / y))"

text \<open>
  \<^verbatim>\<open>round(x, n)\<close> returns a multiple of \<open>10^-n\<close> nearest to \<open>x\<close>. When \<open>x\<close> lies
  exactly halfway between two multiples, the side that Python takes depends on the
  double that stands for \<open>x\<close>, which the real number does not determine; the model
  takes the direction as the parameter \<open>tie_up\<close>.
\<close>

definition py_round :: "(real \<Rightarrow> nat \<Rightarrow> bool) \<Rightarrow> real \<Rightarrow> nat \<Rightarrow> real" where
  "py_round tie_up x n =
     (let y = x * 10 ^ n; f = \<lfloor>y\<rfloor>; d = y - of_int f in
      if d < 1 / 2 then of_int f / 10 ^ n
      else if 1 / 2 < d then of_int (f + 1) / 10 ^ n
      else if tie_up x n then of_int (f + 1) / 10 ^ n
      else of_int f / 10 ^ n)"

text \<open>
  What it is for \<open>v\<close> to be \<open>x\<close> rounded to \<open>n\<close> decimals: a multiple of \<open>10^-n\<close> at most
  half a unit of the last decimal from \<open>x\<close>.
\<close>

definition rounded_to :: "real \<Rightarrow> nat \<Rightarrow> real \<Rightarrow> bool" where
  "rounded_to x n v =
     (of_int \<lfloor>v * 10 ^ n\<rfloor> = v * 10 ^ n \<and> \<bar>v - x\<bar> \<le> 1 / (2 * 10 ^ n))"

text \<open>A tie direction for the worked examples: every tie goes up.\<close>

definition always_up :: "real \<Rightarrow> nat \<Rightarrow> bool" where
  "always_up x n = True"

text \<open>\<^verbatim>\<open>xs[:k]\<close>: a negative \<open>k\<close> counts from the end of the list.\<close>

definition slice_to :: "int \<Rightarrow> 'a list \<Rightarrow> 'a list" where
  "slice_to k xs =
     (if 0 \<le> k then take (nat k) xs else take (length xs - nat (- k)) xs)"

subsection \<open>Mood and genre signals of the feature reranker\<close>

text \<open>The dictionary \<^verbatim>\<open>adjacent\<close> inside \<^verbatim>\<open>_mood_match_score\<close>.\<close>

definition adjacent :: "string \<rightharpoonup> string set" where
  "adjacent =
     [''happy'' \<mapsto> {''hype'', ''chill''},
      ''hype'' \<mapsto> {''happy''},
      ''chill'' \<mapsto> {''happy'', ''sad'', ''focus''},
      ''sad'' \<mapsto> {''chill'', ''focus''},
      ''focus'' \<mapsto> {''chill'', ''sad''}]"

definition mood_match_score :: "string \<Rightarrow> string \<Rightarrow> real" where
  "mood_match_score song_mood target_mood =
     (if song_mood = [] \<or> target_mood = [] then 0
      else if song_mood = target_mood then 1
      else if target_mood \<in> (case adjacent song_mood of None \<Rightarrow> {} | Some ms \<Rightarrow> ms)
      then 3 / 10 else 0)"

definition genre_match_score :: "string \<Rightarrow> string list \<Rightarrow> real" where
  "genre_match_score song_genre user_genres =
     (if song_genre = [] \<or> user_genres = [] then 0
      else if lower song_genre \<in> set (map lower user_genres) then 1 else 0)"

subsection \<open>Tokenizer\<close>

text \<open>
  \<^verbatim>\<open>TOKEN_RE = re.compile(r"\w+")\<close>: a token is a maximal run of letters, digits and
  underscores.
\<close>

definition is_word_char :: "char \<Rightarrow> bool" where
  "is_word_char c =
     (let n = (of_char c :: nat) in
      (97 \<le> n \<and> n \<le> 122) \<or> (65 \<le> n \<and> n \<le> 90) \<or> (48 \<le> n \<and> n \<le> 57) \<or> n = 95)"

fun findall_words :: "string \<Rightarrow> string \<Rightarrow> string list" where
  "findall_words cur [] = (if cur = [] then [] else [cur])"
| "findall_words cur (c # cs) =
     (if is_word_char c then findall_words (cur @ [c]) cs
      else if cur = [] then findall_words [] cs
      else cur # findall_words [] cs)"

definition tokenize :: "string option \<Rightarrow> string list" where
  "tokenize text =
     (case text of
        None \<Rightarrow> []
      | Some s \<Rightarrow> if s = [] then [] else findall_words [] (lower s))"

subsection \<open>Inverted index and IDF\<close>

text \<open>
  The index bundle: the five keys that \<^verbatim>\<open>load_indexes\<close> requires, each a dictionary
  from token to posting list.
\<close>

record indexes =
  ix_genre :: "string \<rightharpoonup> int list"
  ix_mood :: "string \<rightharpoonup> int list"
  ix_energy :: "string \<rightharpoonup> int list"
  ix_title :: "string \<rightharpoonup> int list"
  ix_artist :: "string \<rightharpoonup> int list"

text \<open>\<^verbatim>\<open>index.get(token, [])\<close>.\<close>

definition get_postings :: "(string \<rightharpoonup> int list) \<Rightarrow> string \<Rightarrow> int list" where
  "get_postings index tok = (case index tok of None \<Rightarrow> [] | Some ps \<Rightarrow> ps)"

definition doc_freq_for_token ::
  "string \<Rightarrow> (string \<rightharpoonup> int list) \<Rightarrow> (string \<rightharpoonup> int list) \<Rightarrow> nat" where
  "doc_freq_for_token token title_index artist_index =
     (let title_docs = set (get_postings title_index token);
          artist_docs = set (get_postings artist_index token)
      in card (title_docs \<union> artist_docs))"

text \<open>
  \<open>N\<close> is the document count \<^verbatim>\<open>len(track_lookup)\<close>, a natural number. The divisor
  \<open>df + 1\<close> is at least 1.
\<close>

definition idf ::
  "string \<Rightarrow> (string \<rightharpoonup> int list) \<Rightarrow> (string \<rightharpoonup> int list) \<Rightarrow> nat \<Rightarrow> real" where
  "idf token title_index artist_index N =
     (let df = doc_freq_for_token token title_index artist_index
      in ln ((real N + 1) / (real df + 1)) + 1)"

subsection \<open>Candidate retrieval\<close>

text \<open>\<^verbatim>\<open>set.intersection(s, *ss)\<close> on a non-empty argument list.\<close>

definition set_intersection :: "'a set \<Rightarrow> 'a set list \<Rightarrow> 'a set" where
  "set_intersection s ss = fold (\<lambda>t acc. acc \<inter> t) ss s"

text \<open>
  The result \<^verbatim>\<open>list(set.intersection(*sets))\<close> lists a Python set in its iteration
  order, which the language leaves open; the model returns the set.
\<close>

definition retrieve_candidates ::
  "indexes \<Rightarrow> string list option \<Rightarrow> string option \<Rightarrow> string option \<Rightarrow>
   string option \<Rightarrow> string option \<Rightarrow> int set" where
  "retrieve_candidates ixs genres mood energy title_query artist_query =
     (let genre_index = ix_genre ixs;
          mood_index = ix_mood ixs;
          energy_index = ix_energy ixs;
          title_index = ix_title ixs;
          artist_index = ix_artist ixs;
          text_hits =
            (if truthy title_query then
               (case map (\<lambda>w. set (get_postings title_index w)) (tokenize title_query) of
                  [] \<Rightarrow> None
                | s # ss \<Rightarrow> Some (set_intersection s ss))
             else None);
          text_hits =
            (if truthy artist_query then
               (case map (\<lambda>w. set (get_postings artist_index w)) (tokenize artist_query) of
                  [] \<Rightarrow> text_hits
                | s # ss \<Rightarrow>
                    (let artist_hits = set_intersection s ss in
                     Some (case text_hits of
                             None \<Rightarrow> artist_hits
                           | Some th \<Rightarrow> th \<inter> artist_hits)))
             else text_hits);
          sets = (case text_hits of None \<Rightarrow> [] | Some th \<Rightarrow> [th]);
          sets =
            (if truthy genres then
               sets @ [fold (\<lambda>g genre_hits.
                               if g \<noteq> [] then genre_hits \<union> set (get_postings genre_index (lower g))
                               else genre_hits)
                            (case genres of None \<Rightarrow> [] | Some gs \<Rightarrow> gs) {}]
             else sets);
          sets =
            (case mood of
               Some m \<Rightarrow> if m \<noteq> [] then sets @ [set (get_postings mood_index (lower m))] else sets
             | None \<Rightarrow> sets);
          sets =
            (case energy of
               Some e \<Rightarrow> if e \<noteq> [] then sets @ [set (get_postings energy_index (lower e))] else sets
             | None \<Rightarrow> sets)
      in case sets of [] \<Rightarrow> {} | s # ss \<Rightarrow> set_intersection s ss)"

text \<open>
  The retriever as the specification words it, for comparison with the code: each of the
  five categories is either inactive or contributes a hit set, and the result is the
  intersection of the hit sets of the active categories (empty when none is active).
  A text category is active when its query has at least one token, and a document hits
  when it is in the postings of every token. The genre category is active when the list
  of genres is non-empty, and a document hits when it is in the postings of some
  requested (non-empty) genre. Mood and energy are active when given and non-empty.
\<close>

definition text_category :: "(string \<rightharpoonup> int list) \<Rightarrow> string option \<Rightarrow> int set option" where
  "text_category index query =
     (if tokenize query = [] then None
      else Some (\<Inter>w \<in> set (tokenize query). set (get_postings index w)))"

definition genre_category ::
  "(string \<rightharpoonup> int list) \<Rightarrow> string list option \<Rightarrow> int set option" where
  "genre_category index genres =
     (case genres of
        None \<Rightarrow> None
      | Some gs \<Rightarrow>
          if gs = [] then None
          else Some (\<Union>g \<in> {g \<in> set gs. g \<noteq> []}. set (get_postings index (lower g))))"

definition bucket_category :: "(string \<rightharpoonup> int list) \<Rightarrow> string option \<Rightarrow> int set option" where
  "bucket_category index v =
     (case v of
        None \<Rightarrow> None
      | Some x \<Rightarrow> if x = [] then None else Some (set (get_postings index (lower x))))"

definition active_hit_sets ::
  "indexes \<Rightarrow> string list option \<Rightarrow> string option \<Rightarrow> string option \<Rightarrow>
   string option \<Rightarrow> string option \<Rightarrow> int set list" where
  "active_hit_sets ixs genres mood energy title_query artist_query =
     List.map_filter (\<lambda>h. h)
       [text_category (ix_title ixs) title_query,
        text_category (ix_artist ixs) artist_query,
        genre_category (ix_genre ixs) genres,
        bucket_category (ix_mood ixs) mood,
        bucket_category (ix_energy ixs) energy]"

definition candidates_spec ::
  "indexes \<Rightarrow> string list option \<Rightarrow> string option \<Rightarrow> string option \<Rightarrow>
   string option \<Rightarrow> string option \<Rightarrow> int set" where
  "candidates_spec ixs genres mood energy title_query artist_query =
     (let hs = active_hit_sets ixs genres mood energy title_query artist_query
      in if hs = [] then {} else \<Inter> (set hs))"

text \<open>The index of the specification's retrieval scenario.\<close>

definition scenario_index :: indexes where
  "scenario_index =
     \<lparr>ix_genre = [''pop'' \<mapsto> [1, 2]], ix_mood = [''sad'' \<mapsto> [2, 3]],
      ix_energy = Map.empty, ix_title = Map.empty, ix_artist = Map.empty\<rparr>"

subsection \<open>Track records\<close>

text \<open>
  A catalog row is a Python dictionary from column name to value. The model keeps its
  numeric columns (the audio features, popularity) and its text columns (title,
  artist_name, genre, mood_bucket) as two association lists; a missing key is a missing
  entry. \<^verbatim>\<open>track_lookup\<close> is the dictionary from track identifier to row.
\<close>

record track =
  numeric :: "(string \<times> real) list"
  textual :: "(string \<times> string) list"

type_synonym track_lookup = "(int \<times> track) list"

text \<open>\<^verbatim>\<open>float(row.get(key, default))\<close> and \<^verbatim>\<open>row.get(key, default)\<close>.\<close>

definition num_get :: "track \<Rightarrow> string \<Rightarrow> real \<Rightarrow> real" where
  "num_get row key dflt = (case map_of (numeric row) key of None \<Rightarrow> dflt | Some v \<Rightarrow> v)"

definition txt_get :: "track \<Rightarrow> string \<Rightarrow> string \<Rightarrow> string" where
  "txt_get row key dflt = (case map_of (textual row) key of None \<Rightarrow> dflt | Some v \<Rightarrow> v)"

text \<open>\<^verbatim>\<open>not doc\<close> for a dictionary: it has no key.\<close>

definition empty_row :: "track \<Rightarrow> bool" where
  "empty_row row = (numeric row = [] \<and> textual row = [])"

definition unique_doc_count :: "track_lookup \<Rightarrow> nat" where
  "unique_doc_count lookup = length (remdups (map fst lookup))"

subsection \<open>TF-IDF scoring\<close>

definition compute_tf_for_doc :: "string list \<Rightarrow> string list \<Rightarrow> string \<rightharpoonup> real" where
  "compute_tf_for_doc tokens query_terms =
     fold (\<lambda>t tf. tf(t \<mapsto> (let f = count_list tokens t in
                              if f = 0 then 0 else 1 + ln (real f))))
          query_terms Map.empty"

text \<open>
  The loop of \<^verbatim>\<open>score_doc_tfidf_for_fields\<close> over the query terms; \<^verbatim>\<open>tf_title[term]\<close>
  raises on a missing key.
\<close>

fun tfidf_terms ::
  "(string \<rightharpoonup> real) \<Rightarrow> (string \<rightharpoonup> real) \<Rightarrow> (string \<rightharpoonup> real) \<Rightarrow> nat \<Rightarrow>
   (string \<rightharpoonup> int list) \<Rightarrow> (string \<rightharpoonup> int list) \<Rightarrow> string list \<Rightarrow> real \<Rightarrow>
   py_error + real" where
  "tfidf_terms fw tf_title tf_artist N title_index artist_index [] score = Inr score"
| "tfidf_terms fw tf_title tf_artist N title_index artist_index (term # terms) score =
     (let term_idf = idf term title_index artist_index N in
      case tf_title term of
        None \<Rightarrow> Inl KeyError
      | Some tt \<Rightarrow>
          (case tf_artist term of
             None \<Rightarrow> Inl KeyError
           | Some ta \<Rightarrow>
               (let s = (case fw ''title'' of None \<Rightarrow> 1 | Some w \<Rightarrow> w) * tt
                        + (case fw ''artist'' of None \<Rightarrow> 1 | Some w \<Rightarrow> w) * ta
                in tfidf_terms fw tf_title tf_artist N title_index artist_index terms
                     (score + s * term_idf))))"

definition score_doc_tfidf_for_fields ::
  "track \<Rightarrow> string list \<Rightarrow> nat \<Rightarrow> (string \<rightharpoonup> int list) \<Rightarrow> (string \<rightharpoonup> int list) \<Rightarrow>
   (string \<rightharpoonup> real) option \<Rightarrow> string \<Rightarrow> string \<Rightarrow> py_error + real" where
  "score_doc_tfidf_for_fields doc query_terms N title_index artist_index field_weights
       title_col artist_col =
     (let fw = (case field_weights of
                  None \<Rightarrow> [''title'' \<mapsto> 2, ''artist'' \<mapsto> 1]
                | Some w \<Rightarrow> w);
          title_tokens = tokenize (Some (txt_get doc title_col ''''));
          artist_tokens = tokenize (Some (txt_get doc artist_col ''''));
          tf_title = compute_tf_for_doc title_tokens query_terms;
          tf_artist = compute_tf_for_doc artist_tokens query_terms
      in tfidf_terms fw tf_title tf_artist N title_index artist_index query_terms 0)"

text \<open>
  The loop over the candidates: a candidate with no row, or with an empty row, is
  skipped; the first exception ends the loop.
\<close>

fun score_candidates ::
  "(track \<Rightarrow> py_error + 'a) \<Rightarrow> track_lookup \<Rightarrow> int list \<Rightarrow> py_error + (int \<times> 'a) list" where
  "score_candidates f lookup [] = Inr []"
| "score_candidates f lookup (tid # tids) =
     (case map_of lookup tid of
        None \<Rightarrow> score_candidates f lookup tids
      | Some doc \<Rightarrow>
          if empty_row doc then score_candidates f lookup tids
          else (case f doc of
                  Inl e \<Rightarrow> Inl e
                | Inr s \<Rightarrow>
                    (case score_candidates f lookup tids of
                       Inl e \<Rightarrow> Inl e
                     | Inr scored \<Rightarrow> Inr ((tid, s) # scored))))"

text \<open>The loop that collects the tokens of every non-empty query text.\<close>

definition build_query_terms :: "string list \<Rightarrow> string list" where
  "build_query_terms query_texts =
     concat (map (\<lambda>qt. if qt \<noteq> [] then tokenize (Some qt) else []) query_texts)"

definition rank_candidates_with_tfidf ::
  "int list \<Rightarrow> string list \<Rightarrow> track_lookup \<Rightarrow> indexes \<Rightarrow> (string \<rightharpoonup> real) option \<Rightarrow>
   string \<Rightarrow> string \<Rightarrow> int \<Rightarrow> py_error + (int \<times> real) list" where
  "rank_candidates_with_tfidf candidates query_texts lookup ixs field_weights
       title_col artist_col top_k =
     (let title_index = ix_title ixs;
          artist_index = ix_artist ixs;
          query_terms = build_query_terms query_texts
      in if query_terms = [] then Inr (map (\<lambda>tid. (tid, 0)) (slice_to top_k candidates))
         else
           (let N = unique_doc_count lookup in
            case score_candidates
                   (\<lambda>doc. score_doc_tfidf_for_fields doc query_terms N title_index
                             artist_index field_weights title_col artist_col)
                   lookup candidates of
              Inl e \<Rightarrow> Inl e
            | Inr scored \<Rightarrow>
                Inr (slice_to top_k (sort_key (\<lambda>x. (- snd x, fst x)) scored))))"

subsection \<open>Feature vectors and cosine similarity\<close>

definition AUDIO_FEATURES :: "string list" where
  "AUDIO_FEATURES = [''energy'', ''valence'', ''danceability'', ''acousticness'', ''tempo'']"

definition TEMPO_MIN :: real where "TEMPO_MIN = 40"

definition TEMPO_MAX :: real where "TEMPO_MAX = 220"

definition normalize_tempo :: "real \<Rightarrow> real" where
  "normalize_tempo tempo = max 0 (min 1 ((tempo - TEMPO_MIN) / (TEMPO_MAX - TEMPO_MIN)))"

definition build_feature_vector :: "(string \<rightharpoonup> real) \<Rightarrow> bool \<Rightarrow> real list" where
  "build_feature_vector row do_normalize =
     map (\<lambda>feat.
            let val = (case row feat of None \<Rightarrow> 1 / 2 | Some v \<Rightarrow> v)
            in if feat = ''tempo'' \<and> do_normalize then normalize_tempo val else val)
         AUDIO_FEATURES"

definition dot_product :: "real list \<Rightarrow> real list \<Rightarrow> real" where
  "dot_product a b = sum_list (map (\<lambda>(x, y). x * y) (zip a b))"

definition magnitude :: "real list \<Rightarrow> real" where
  "magnitude a = sqrt (sum_list (map (\<lambda>x. x * x) a))"

definition cosine_similarity :: "real list \<Rightarrow> real list \<Rightarrow> py_error + real" where
  "cosine_similarity a b =
     (let dot = dot_product a b;
          mag_a = magnitude a;
          mag_b = magnitude b
      in if mag_a = 0 \<or> mag_b = 0 then Inr 0
         else py_div dot (mag_a * mag_b))"

subsection \<open>Target vector of the feature reranker\<close>

record user_profile =
  avg_energy_preference :: "real option"
  top_genres :: "string list option"

definition activity_energy :: "string \<rightharpoonup> real" where
  "activity_energy =
     [''workout'' \<mapsto> 85 / 100, ''study'' \<mapsto> 25 / 100,
      ''relax'' \<mapsto> 20 / 100, ''commute'' \<mapsto> 55 / 100]"

record mood_profile =
  mp_valence :: real
  mp_danceability :: real
  mp_acousticness :: real
  mp_tempo :: real

definition mood_profiles :: "string \<rightharpoonup> mood_profile" where
  "mood_profiles =
     [''happy'' \<mapsto> \<lparr>mp_valence = 80 / 100, mp_danceability = 70 / 100,
                    mp_acousticness = 30 / 100, mp_tempo = 120\<rparr>,
      ''sad'' \<mapsto> \<lparr>mp_valence = 20 / 100, mp_danceability = 30 / 100,
                  mp_acousticness = 60 / 100, mp_tempo = 85\<rparr>,
      ''chill'' \<mapsto> \<lparr>mp_valence = 45 / 100, mp_danceability = 40 / 100,
                    mp_acousticness = 55 / 100, mp_tempo = 95\<rparr>,
      ''hype'' \<mapsto> \<lparr>mp_valence = 75 / 100, mp_danceability = 85 / 100,
                   mp_acousticness = 15 / 100, mp_tempo = 140\<rparr>,
      ''focus'' \<mapsto> \<lparr>mp_valence = 40 / 100, mp_danceability = 35 / 100,
                    mp_acousticness = 50 / 100, mp_tempo = 100\<rparr>]"

definition build_user_audio_vector ::
  "user_profile \<Rightarrow> string \<Rightarrow> string option \<Rightarrow> real list" where
  "build_user_audio_vector profile mood activity =
     (let base_energy = (case avg_energy_preference profile of None \<Rightarrow> 1 / 2 | Some e \<Rightarrow> e);
          base_energy =
            (case activity of
               None \<Rightarrow> base_energy
             | Some a \<Rightarrow>
                 if a \<noteq> [] then (case activity_energy a of None \<Rightarrow> base_energy | Some e \<Rightarrow> e)
                 else base_energy);
          mp = (case mood_profiles mood of
                  None \<Rightarrow> \<lparr>mp_valence = 1 / 2, mp_danceability = 1 / 2,
                           mp_acousticness = 1 / 2, mp_tempo = 110\<rparr>
                | Some p \<Rightarrow> p);
          target = [''energy'' \<mapsto> base_energy,
                    ''valence'' \<mapsto> mp_valence mp,
                    ''danceability'' \<mapsto> mp_danceability mp,
                    ''acousticness'' \<mapsto> mp_acousticness mp,
                    ''tempo'' \<mapsto> mp_tempo mp]
      in build_feature_vector target True)"

subsection \<open>Scoring and reranking by features\<close>

text \<open>The score breakdown is a dictionary from component name to value.\<close>

type_synonym breakdown = "string \<rightharpoonup> real"

definition score_candidate_song ::
  "(real \<Rightarrow> nat \<Rightarrow> bool) \<Rightarrow> track \<Rightarrow> real list \<Rightarrow> string \<Rightarrow> string list \<Rightarrow>
   py_error + (real \<times> breakdown)" where
  "score_candidate_song tie_up song user_vector target_mood user_genres =
     (let song_vector = build_feature_vector (map_of (numeric song)) True in
      case cosine_similarity user_vector song_vector of
        Inl e \<Rightarrow> Inl e
      | Inr sim \<Rightarrow>
          (let mood_sc = mood_match_score (txt_get song ''mood_bucket'' '''') target_mood;
               genre_sc = genre_match_score (txt_get song ''genre'' '''') user_genres;
               pop_sc = num_get song ''popularity'' 50 / 100;
               final = 45 / 100 * sim + 25 / 100 * mood_sc + 15 / 100 * genre_sc
                       + 15 / 100 * pop_sc;
               bd = [''audio_similarity'' \<mapsto> py_round tie_up sim 4,
                     ''mood_match'' \<mapsto> py_round tie_up mood_sc 4,
                     ''genre_match'' \<mapsto> py_round tie_up genre_sc 4,
                     ''popularity'' \<mapsto> py_round tie_up pop_sc 4,
                     ''final_score'' \<mapsto> py_round tie_up final 4]
           in Inr (final, bd)))"

definition rank_candidates_by_features ::
  "(real \<Rightarrow> nat \<Rightarrow> bool) \<Rightarrow> int list \<Rightarrow> track_lookup \<Rightarrow> user_profile \<Rightarrow> string \<Rightarrow>
   string option \<Rightarrow> int \<Rightarrow>
   py_error + (int \<times> real \<times> breakdown) list" where
  "rank_candidates_by_features tie_up candidates lookup profile mood activity top_k =
     (let user_vector = build_user_audio_vector profile mood activity;
          user_genres = (case top_genres profile of None \<Rightarrow> [] | Some gs \<Rightarrow> gs)
      in case score_candidates
                (\<lambda>song. score_candidate_song tie_up song user_vector mood user_genres)
                lookup candidates of
           Inl e \<Rightarrow> Inl e
         | Inr scored \<Rightarrow>
             Inr (slice_to top_k (sort_key (\<lambda>x. (- fst (snd x), fst x)) scored)))"

subsection \<open>Explanation generator\<close>

text \<open>
  Each clause that \<^verbatim>\<open>generate_explanation\<close> appends is a constructor carrying the values
  interpolated into its text; the result is the list of clauses that the code joins with
  a separator.
\<close>

datatype clause =
  ExcellentAudio real
| StrongAudio real
| HighEnergy real string
| LowEnergy real string
| MoodMatches string
| MoodAdjacent string string
| GenreInTop string
| PopularTrack int
| ContextFallback

text \<open>\<^verbatim>\<open>int(x)\<close> on a float truncates towards zero.\<close>

definition py_int :: "real \<Rightarrow> int" where
  "py_int x = (if 0 \<le> x then \<lfloor>x\<rfloor> else \<lceil>x\<rceil>)"

definition generate_explanation ::
  "track \<Rightarrow> breakdown \<Rightarrow> string list \<Rightarrow> string \<Rightarrow> string option \<Rightarrow> clause list" where
  "generate_explanation song bd user_genres mood activity =
     (let reasons = [];
          sim = (case bd ''audio_similarity'' of None \<Rightarrow> 0 | Some v \<Rightarrow> v);
          reasons =
            (if 95 / 100 \<le> sim then reasons @ [ExcellentAudio sim]
             else if 85 / 100 \<le> sim then reasons @ [StrongAudio sim]
             else reasons);
          song_energy = num_get song ''energy'' (1 / 2);
          reasons =
            (case activity of
               None \<Rightarrow> reasons
             | Some a \<Rightarrow>
                 if a = [] then reasons
                 else if a = ''workout'' \<and> 7 / 10 \<le> song_energy
                 then reasons @ [HighEnergy song_energy a]
                 else if (a = ''study'' \<or> a = ''relax'') \<and> song_energy \<le> 35 / 100
                 then reasons @ [LowEnergy song_energy a]
                 else reasons);
          song_mood = txt_get song ''mood_bucket'' '''';
          reasons =
            (if song_mood = mood then reasons @ [MoodMatches song_mood]
             else if 0 < (case bd ''mood_match'' of None \<Rightarrow> 0 | Some v \<Rightarrow> v)
             then reasons @ [MoodAdjacent song_mood mood]
             else reasons);
          song_genre = txt_get song ''genre'' '''';
          reasons =
            (if lower song_genre \<in> set (map lower user_genres)
             then reasons @ [GenreInTop song_genre]
             else reasons);
          pop = py_int (num_get song ''popularity'' 0);
          reasons = (if 75 \<le> pop then reasons @ [PopularTrack pop] else reasons)
      in if reasons = [] then [ContextFallback] else reasons)"

subsection \<open>Example rows\<close>

definition example_song :: track where
  "example_song =
     \<lparr>numeric = [(''energy'', 1), (''valence'', 0), (''danceability'', 0),
                 (''acousticness'', 0), (''tempo'', 40), (''popularity'', 80)],
      textual = [(''title'', ''Love Song''), (''artist_name'', ''Ada''),
                 (''genre'', ''Pop''), (''mood_bucket'', ''happy'')]\<rparr>"

definition song_without_popularity :: track where
  "song_without_popularity =
     \<lparr>numeric = [(''energy'', 1), (''tempo'', 40)],
      textual = [(''title'', ''Quiet''), (''mood_bucket'', ''sad'')]\<rparr>"

subsection \<open>Order of ranked results\<close>

text \<open>
  The order that the specification states for two results, each a track identifier with
  its score: the score strictly decreases, or the scores are equal and the track
  identifier strictly increases.
\<close>

definition ranked_before :: "int \<times> real \<Rightarrow> int \<times> real \<Rightarrow> bool" where
  "ranked_before a b = (snd b < snd a \<or> (snd a = snd b \<and> fst a < fst b))"

text \<open>The identifier and final score of a result of the feature reranker.\<close>

definition id_and_score :: "int \<times> real \<times> breakdown \<Rightarrow> int \<times> real" where
  "id_and_score r = (fst r, fst (snd r))"

definition example_lookup :: track_lookup where
  "example_lookup = [(1, example_song), (2, song_without_popularity)]"

definition example_profile :: user_profile where
  "example_profile = \<lparr>avg_energy_preference = Some (6 / 10), top_genres = Some [''pop'', ''rock'']\<rparr>"

subsection \<open>Time-context profiler\<close>

text \<open>
  Rows of the events and sessions frames, with the columns that
  \<^verbatim>\<open>build_time_context_profiles\<close> reads. User identifiers are strings, and every event
  carries its timeslot.
\<close>

record event =
  ev_user_id :: string
  ev_session_id :: string
  ev_track_id :: int
  event_type :: string
  skipped :: bool
  time_of_day :: string

record session_row =
  ss_user_id :: string
  ss_session_id :: string
  self_reported_mood :: "string option"
  activity_type :: "string option"

text \<open>
  The left merge of events with sessions on (user_id, session_id): an event without a
  matching session gives one row, an event with several matching sessions one row for
  each.
\<close>

definition merge_left :: "event list \<Rightarrow> session_row list \<Rightarrow> (event \<times> session_row option) list" where
  "merge_left events sessions =
     concat (map (\<lambda>e.
                    case filter (\<lambda>s. ss_user_id s = ev_user_id e
                                      \<and> ss_session_id s = ev_session_id e) sessions of
                      [] \<Rightarrow> [(e, None)]
                    | ms \<Rightarrow> map (\<lambda>s. (e, Some s)) ms)
                 events)"

text \<open>
  The profile of one timeslot. The model keeps the fields \<^verbatim>\<open>event_count\<close> and
  \<^verbatim>\<open>confidence\<close>; the fields \<^verbatim>\<open>typical_mood\<close>, \<^verbatim>\<open>typical_activity\<close> and
  \<^verbatim>\<open>top_genres\<close>, which pandas computes from columns that the confidence does not
  read, are left out, and with them the catalog frame.
\<close>

record slot_profile =
  event_count :: nat
  confidence :: real

text \<open>
  The inner loop over \<^verbatim>\<open>user_events.groupby("time_of_day")\<close>: the groups come in the
  sorted order of their keys. A group has at least one row, so the divisor
  \<^verbatim>\<open>len(user_events)\<close> is positive.
\<close>

definition user_context ::
  "(real \<Rightarrow> nat \<Rightarrow> bool) \<Rightarrow> (event \<times> session_row option) list \<Rightarrow>
   (string \<times> slot_profile) list" where
  "user_context tie_up user_events =
     map (\<lambda>tod.
            let tod_events = filter (\<lambda>r. time_of_day (fst r) = tod) user_events;
                conf = real (length tod_events) / real (length user_events)
            in (tod, \<lparr>event_count = length tod_events, confidence = py_round tie_up conf 3\<rparr>))
         (sort (remdups (map (\<lambda>r. time_of_day (fst r)) user_events)))"

definition build_time_context_profiles ::
  "(real \<Rightarrow> nat \<Rightarrow> bool) \<Rightarrow> event list \<Rightarrow> session_row list \<Rightarrow>
   string \<rightharpoonup> (string \<times> slot_profile) list" where
  "build_time_context_profiles tie_up events sessions =
     (let merged = merge_left events sessions;
          meaningful = filter (\<lambda>r. event_type (fst r) = ''play'' \<and> \<not> skipped (fst r)) merged
      in fold (\<lambda>user_id profiles.
                 let user_events = filter (\<lambda>r. ev_user_id (fst r) = user_id) meaningful;
                     user_ctx = user_context tie_up user_events;
                     uid = lower user_id
                 in profiles(uid \<mapsto> user_ctx))
              (sort (remdups (map (\<lambda>r. ev_user_id (fst r)) meaningful)))
              Map.empty)"

text \<open>The sum of the stored confidence values of a user.\<close>

definition confidence_sum :: "(string \<times> slot_profile) list \<Rightarrow> real" where
  "confidence_sum user_ctx = sum_list (map (\<lambda>(tod, p). confidence p) user_ctx)"

definition total_event_count :: "(string \<times> slot_profile) list \<Rightarrow> nat" where
  "total_event_count user_ctx = sum_list (map (\<lambda>(tod, p). event_count p) user_ctx)"

definition example_events :: "event list" where
  "example_events =
     [\<lparr>ev_user_id = ''U1'', ev_session_id = ''s1'', ev_track_id = 1, event_type = ''play'',
       skipped = False, time_of_day = ''morning''\<rparr>,
      \<lparr>ev_user_id = ''U1'', ev_session_id = ''s1'', ev_track_id = 2, event_type = ''play'',
       skipped = False, time_of_day = ''morning''\<rparr>,
      \<lparr>ev_user_id = ''U1'', ev_session_id = ''s2'', ev_track_id = 1, event_type = ''play'',
       skipped = False, time_of_day = ''evening''\<rparr>,
      \<lparr>ev_user_id = ''U1'', ev_session_id = ''s2'', ev_track_id = 2, event_type = ''play'',
       skipped = True, time_of_day = ''night''\<rparr>]"

section \<open>Properties\<close>

subsection \<open>Mood match score\<close>

lemma adjacent_cases:
  "adjacent s =
     (if s = ''focus'' then Some {''chill'', ''sad''}
      else if s = ''sad'' then Some {''chill'', ''focus''}
      else if s = ''chill'' then Some {''happy'', ''sad'', ''focus''}
      else if s = ''hype'' then Some {''happy''}
      else if s = ''happy'' then Some {''hype'', ''chill''}
      else None)"
  by (simp add: adjacent_def)

lemma adjacent_sym:
  "t \<in> (case adjacent s of None \<Rightarrow> {} | Some ms \<Rightarrow> ms)
   \<longleftrightarrow> s \<in> (case adjacent t of None \<Rightarrow> {} | Some ms \<Rightarrow> ms)"
  unfolding adjacent_cases by (auto split: if_splits)

text \<open>
  C1 (as amended). The score is 1 on an exact match of non-empty moods; for distinct
  moods it is 0.3 exactly when both are non-empty and the target mood is in the table
  entry of the candidate's mood, and 0 otherwise. The adjacency table is symmetric, so
  the score does not depend on the order of its arguments: candidate "happy" with target
  "hype" and candidate "hype" with target "happy" both score 0.3.
\<close>

theorem mood_match_score_cases_symmetric:
  "mood_match_score s t = mood_match_score t s
   \<and> (s \<noteq> [] \<longrightarrow> mood_match_score s s = 1)
   \<and> (s \<noteq> t \<longrightarrow>
        mood_match_score s t =
          (if s \<noteq> [] \<and> t \<noteq> []
              \<and> t \<in> (case adjacent s of None \<Rightarrow> {} | Some ms \<Rightarrow> ms)
           then 3 / 10 else 0))
   \<and> mood_match_score ''happy'' ''hype'' = 3 / 10
   \<and> mood_match_score ''hype'' ''happy'' = 3 / 10"
proof -
  have sym: "mood_match_score s t = mood_match_score t s"
    using adjacent_sym [of t s] by (auto simp: mood_match_score_def)
  have a: "mood_match_score ''happy'' ''hype'' = 3 / 10"
    by (simp add: mood_match_score_def adjacent_def)
  have b: "mood_match_score ''hype'' ''happy'' = 3 / 10"
    by (simp add: mood_match_score_def adjacent_def)
  have c: "s \<noteq> [] \<longrightarrow> mood_match_score s s = 1"
    by (simp add: mood_match_score_def)
  have d: "s \<noteq> t \<longrightarrow>
        mood_match_score s t =
          (if s \<noteq> [] \<and> t \<noteq> []
              \<and> t \<in> (case adjacent s of None \<Rightarrow> {} | Some ms \<Rightarrow> ms)
           then 3 / 10 else 0)"
    unfolding mood_match_score_def by simp
  from sym c d a b show ?thesis by blast
qed

theorem mood_match_score_cases_symmetric_witness:
  "''chill'' \<noteq> [] \<and> ''chill'' \<noteq> ''hype''
   \<and> mood_match_score ''chill'' ''hype'' = mood_match_score ''hype'' ''chill''
   \<and> mood_match_score ''chill'' ''chill'' = 1
   \<and> mood_match_score ''chill'' ''hype'' = 0"
  using mood_match_score_cases_symmetric [of "''chill''" "''hype''"]
  by (simp add: adjacent_def)

text \<open>
  The claim as stated, that candidate "hype" with target "happy" does not score 0.3
  while candidate "happy" with target "hype" does, is false.
\<close>

theorem mood_match_score_asymmetry_counterexample:
  "\<not> (mood_match_score ''happy'' ''hype'' = 3 / 10
       \<and> mood_match_score ''hype'' ''happy'' \<noteq> 3 / 10)"
  by (simp add: mood_match_score_def adjacent_def)

subsection \<open>Smoothed IDF\<close>

lemma idf_positive_iff:
  "0 < idf tok ti ai N
   \<longleftrightarrow> real (doc_freq_for_token tok ti ai) + 1 < exp 1 * (real N + 1)"
proof -
  let ?q = "(real N + 1) / (real (doc_freq_for_token tok ti ai) + 1)"
  have q: "0 < ?q" by simp
  have "0 < ln ?q + 1 \<longleftrightarrow> - 1 < ln ?q" by linarith
  also have "\<dots> \<longleftrightarrow> exp (- 1) < ?q"
    using q exp_less_cancel_iff [of "- 1" "ln ?q"] by (simp del: exp_less_cancel_iff)
  also have "\<dots> \<longleftrightarrow> real (doc_freq_for_token tok ti ai) + 1 < exp 1 * (real N + 1)"
    by (simp add: exp_minus field_simps)
  finally show ?thesis by (simp add: idf_def Let_def)
qed

lemma idf_ge_one: "doc_freq_for_token tok ti ai \<le> N \<Longrightarrow> 1 \<le> idf tok ti ai N"
  unfolding idf_def Let_def by simp

lemma idf_strict_antimono:
  "doc_freq_for_token tok ti ai < doc_freq_for_token tok' ti' ai'
   \<Longrightarrow> idf tok' ti' ai' N < idf tok ti ai N"
  unfolding idf_def Let_def by (simp add: frac_less2)

lemma doc_freq_absent: "ti tok = None \<Longrightarrow> ai tok = None \<Longrightarrow> doc_freq_for_token tok ti ai = 0"
  by (simp add: doc_freq_for_token_def get_postings_def)

text \<open>
  C2 (as amended). The smoothed IDF \<open>ln ((N + 1) / (df + 1)) + 1\<close> is strictly positive
  exactly when \<open>df + 1 < e * (N + 1)\<close>; in particular it is strictly positive whenever
  \<open>df \<le> N\<close> (the postings of the token name only tracks of the catalog), and for a
  token absent from both indexes. For a fixed document count it is strictly decreasing in
  the document frequency.
\<close>

theorem idf_positive_and_decreasing:
  "(0 < idf tok ti ai N
      \<longleftrightarrow> real (doc_freq_for_token tok ti ai) + 1 < exp 1 * (real N + 1))
   \<and> (doc_freq_for_token tok ti ai \<le> N \<longrightarrow> 0 < idf tok ti ai N)
   \<and> (ti tok = None \<and> ai tok = None \<longrightarrow> 0 < idf tok ti ai N)
   \<and> (doc_freq_for_token tok ti ai < doc_freq_for_token tok' ti' ai'
        \<longrightarrow> idf tok' ti' ai' N < idf tok ti ai N)"
proof -
  have a: "doc_freq_for_token tok ti ai \<le> N \<longrightarrow> 0 < idf tok ti ai N"
    using idf_ge_one [of tok ti ai N] by auto
  have b: "ti tok = None \<and> ai tok = None \<longrightarrow> 0 < idf tok ti ai N"
    using a doc_freq_absent [of ti tok ai] by auto
  show ?thesis
    using idf_positive_iff [of tok ti ai N] a b idf_strict_antimono [of tok ti ai tok' ti' ai' N]
    by blast
qed

lemma doc_freq_love_song:
  "doc_freq_for_token ''love'' [''love'' \<mapsto> [1, 2], ''song'' \<mapsto> [1, 2, 3, 4]] [''love'' \<mapsto> [3]] = 3"
  "doc_freq_for_token ''song'' [''love'' \<mapsto> [1, 2], ''song'' \<mapsto> [1, 2, 3, 4]] [''love'' \<mapsto> [3]] = 4"
  by (simp_all add: doc_freq_for_token_def get_postings_def)

theorem idf_positive_and_decreasing_witness:
  "doc_freq_for_token ''love'' [''love'' \<mapsto> [1, 2], ''song'' \<mapsto> [1, 2, 3, 4]] [''love'' \<mapsto> [3]] \<le> 5
   \<and> 0 < idf ''love'' [''love'' \<mapsto> [1, 2], ''song'' \<mapsto> [1, 2, 3, 4]] [''love'' \<mapsto> [3]] 5
   \<and> doc_freq_for_token ''love'' [''love'' \<mapsto> [1, 2], ''song'' \<mapsto> [1, 2, 3, 4]] [''love'' \<mapsto> [3]]
       < doc_freq_for_token ''song'' [''love'' \<mapsto> [1, 2], ''song'' \<mapsto> [1, 2, 3, 4]] [''love'' \<mapsto> [3]]
   \<and> idf ''song'' [''love'' \<mapsto> [1, 2], ''song'' \<mapsto> [1, 2, 3, 4]] [''love'' \<mapsto> [3]] 5
       < idf ''love'' [''love'' \<mapsto> [1, 2], ''song'' \<mapsto> [1, 2, 3, 4]] [''love'' \<mapsto> [3]] 5
   \<and> (Map.empty :: string \<rightharpoonup> int list) ''rain'' = None
   \<and> 0 < idf ''rain'' Map.empty Map.empty 5"
  using
    idf_positive_and_decreasing
      [of "''love''" "[''love'' \<mapsto> [1, 2], ''song'' \<mapsto> [1, 2, 3, 4]]" "[''love'' \<mapsto> [3]]" 5
          "''song''" "[''love'' \<mapsto> [1, 2], ''song'' \<mapsto> [1, 2, 3, 4]]" "[''love'' \<mapsto> [3]]",
       THEN conjunct2]
    idf_positive_and_decreasing [of "''rain''" Map.empty Map.empty 5, THEN conjunct2]
  by (simp add: doc_freq_love_song)

text \<open>
  The claim as stated, for every index and every document count, fails when a posting
  list names more tracks than the catalog holds: with three postings and an empty
  catalog the IDF is \<open>ln (1 / 4) + 1 < 0\<close>.
\<close>

lemma doc_freq_dangling:
  "doc_freq_for_token ''x'' [''x'' \<mapsto> [1, 2, 3]] Map.empty = 3"
  by (simp add: doc_freq_for_token_def get_postings_def)

theorem idf_positive_counterexample:
  "\<not> 0 < idf ''x'' [''x'' \<mapsto> [1, 2, 3]] Map.empty 0"
proof -
  have "exp 1 < (4::real)" using exp_le by (smt (verit))
  then have "ln (exp 1) < ln (4::real)" by (subst ln_less_cancel_iff) simp_all
  then have "1 < ln (4::real)" by simp
  then show ?thesis unfolding idf_def Let_def doc_freq_dangling by (simp add: ln_div)
qed

subsection \<open>Candidate retrieval\<close>

lemma set_intersection_eq: "set_intersection s ss = s \<inter> \<Inter> (set ss)"
  unfolding set_intersection_def
  by (induction ss arbitrary: s) auto

lemma fold_genre_hits:
  "fold (\<lambda>g genre_hits. if g \<noteq> [] then genre_hits \<union> set (get_postings index (lower g))
                        else genre_hits) gs acc
   = acc \<union> (\<Union>g \<in> {g \<in> set gs. g \<noteq> []}. set (get_postings index (lower g)))"
  by (induction gs arbitrary: acc) auto

lemma tokenize_falsy: "\<not> truthy q \<Longrightarrow> tokenize q = []"
  by (cases q) (auto simp: tokenize_def)

lemma text_hits_eq:
  "(if truthy q then
      (case map (\<lambda>w. set (get_postings index w)) (tokenize q) of
         [] \<Rightarrow> None
       | s # ss \<Rightarrow> Some (set_intersection s ss))
    else None) = text_category index q"
  using tokenize_falsy [of q]
  by (cases "tokenize q") (auto simp: text_category_def set_intersection_eq)

lemma retrieve_candidates_refines:
  "retrieve_candidates ixs genres mood energy title_query artist_query
   = candidates_spec ixs genres mood energy title_query artist_query"
  unfolding retrieve_candidates_def candidates_spec_def active_hit_sets_def Let_def
    text_hits_eq
  using tokenize_falsy [of artist_query]
  by (cases "tokenize artist_query"; cases "text_category (ix_title ixs) title_query";
      cases genres; cases mood; cases energy)
     (auto simp: text_category_def genre_category_def bucket_category_def
        set_intersection_eq fold_genre_hits)

lemma lower_pop_sad: "lower ''pop'' = ''pop''" "lower ''sad'' = ''sad''"
  by code_simp+

text \<open>
  C3. The candidate set is the intersection of the hit sets of the active categories,
  the genre hit set being the union over the requested genres; on the scenario index
  with genres ["pop"] and mood "sad" it is exactly \<open>{2}\<close>.
\<close>

theorem retrieve_candidates_and_or:
  "retrieve_candidates ixs genres mood energy title_query artist_query
     = candidates_spec ixs genres mood energy title_query artist_query
   \<and> retrieve_candidates scenario_index (Some [''pop'']) (Some ''sad'') None None None = {2}"
proof -
  have "retrieve_candidates scenario_index (Some [''pop'']) (Some ''sad'') None None None = {2}"
    by (auto simp add: retrieve_candidates_def scenario_index_def lower_pop_sad
        get_postings_def set_intersection_def tokenize_def)
  then show ?thesis using retrieve_candidates_refines by simp
qed

text \<open>
  C8. With no title text, no artist text, no genres, no mood and no energy (each absent
  or empty) the retriever returns the empty set.
\<close>

theorem retrieve_candidates_no_filter:
  "\<not> truthy title_query \<Longrightarrow> \<not> truthy artist_query \<Longrightarrow> \<not> truthy genres \<Longrightarrow>
   \<not> truthy mood \<Longrightarrow> \<not> truthy energy \<Longrightarrow>
   retrieve_candidates ixs genres mood energy title_query artist_query = {}"
  by (cases mood; cases energy) (simp_all add: retrieve_candidates_def)

theorem retrieve_candidates_no_filter_witness:
  "\<not> truthy (Some '''') \<and> \<not> truthy (None :: string option)
   \<and> \<not> truthy (Some ([] :: string list))
   \<and> retrieve_candidates scenario_index (Some []) None (Some '''') (Some '''') None = {}"
  using retrieve_candidates_no_filter
    [of "Some ''''" None "Some []" None "Some ''''" scenario_index]
  by simp

subsection \<open>Cosine similarity\<close>

lemma magnitude_zero_iff: "magnitude a = 0 \<longleftrightarrow> (\<forall>x \<in> set a. x = 0)"
proof -
  have nn: "\<forall>y \<in> set (map (\<lambda>x. x * x) a). 0 \<le> y" by auto
  have "sum_list (map (\<lambda>x. x * x) a) = 0 \<longleftrightarrow> (\<forall>y \<in> set (map (\<lambda>x. x * x) a). y = 0)"
    using nn by (intro sum_list_nonneg_eq_0_iff) auto
  then show ?thesis by (simp add: magnitude_def)
qed

text \<open>
  C7. Cosine similarity always returns a value; it is 0 when either vector has zero
  magnitude, and the quotient by the product of the magnitudes is taken only when both
  are non-zero, where the product is non-zero too.
\<close>

theorem cosine_similarity_total:
  "(\<exists>r. cosine_similarity a b = Inr r)
   \<and> (magnitude a = 0 \<or> magnitude b = 0 \<longrightarrow> cosine_similarity a b = Inr 0)
   \<and> (magnitude a \<noteq> 0 \<and> magnitude b \<noteq> 0 \<longrightarrow>
        magnitude a * magnitude b \<noteq> 0
        \<and> cosine_similarity a b = Inr (dot_product a b / (magnitude a * magnitude b)))"
  by (simp add: cosine_similarity_def py_div_def Let_def)

theorem cosine_similarity_total_witness:
  "magnitude [0, 0] = 0 \<and> cosine_similarity [0, 0] [1, 2] = Inr 0
   \<and> magnitude [1, 0] \<noteq> 0
   \<and> cosine_similarity [1, 0] [1, 0]
       = Inr (dot_product [1, 0] [1, 0] / (magnitude [1, 0] * magnitude [1, 0]))"
  using cosine_similarity_total [of "[0, 0]" "[1, 2]"] cosine_similarity_total [of "[1, 0]" "[1, 0]"]
  by (simp add: magnitude_def)

subsection \<open>Target vector\<close>

lemma normalize_tempo_unfold: "normalize_tempo t = max 0 (min 1 ((t - 40) / 180))"
  by (simp add: normalize_tempo_def TEMPO_MIN_def TEMPO_MAX_def)

text \<open>
  C9. For mood "hype" and activity "workout" the target vector is
  (0.85, 0.75, 0.85, 0.15, (140 - 40) / 180), whatever the user profile; the last
  component is 5/9, within 0.001 of 0.556. Tempo is rescaled linearly from [40, 220]
  and clamped to [0, 1].
\<close>

theorem build_user_audio_vector_hype_workout:
  "build_user_audio_vector profile ''hype'' (Some ''workout'')
     = [85 / 100, 75 / 100, 85 / 100, 15 / 100, (140 - 40) / 180]
   \<and> \<bar>(140 - 40) / 180 - 556 / 1000\<bar> < (1 / 1000 :: real)
   \<and> normalize_tempo t = max 0 (min 1 ((t - 40) / (220 - 40)))
   \<and> 0 \<le> normalize_tempo t \<and> normalize_tempo t \<le> 1
   \<and> normalize_tempo 40 = 0 \<and> normalize_tempo 220 = 1"
proof -
  have v: "build_user_audio_vector profile ''hype'' (Some ''workout'')
     = [85 / 100, 75 / 100, 85 / 100, 15 / 100, (140 - 40) / 180]"
    by (simp add: build_user_audio_vector_def activity_energy_def mood_profiles_def
        build_feature_vector_def AUDIO_FEATURES_def normalize_tempo_unfold Let_def)
  show ?thesis using v by (simp add: normalize_tempo_unfold)
qed

subsection \<open>Score of a candidate song\<close>

lemma mood_match_score_range: "mood_match_score s t \<in> {0, 3 / 10, 1}"
  by (simp add: mood_match_score_def)

lemma genre_match_score_range: "genre_match_score g gs \<in> {0, 1}"
  by (simp add: genre_match_score_def)

lemma py_round_scaled:
  "\<exists>k::int. py_round tie_up x n = of_int k / 10 ^ n \<and> \<bar>of_int k - x * 10 ^ n\<bar> \<le> 1 / 2"
proof -
  let ?y = "x * 10 ^ n"
  have f: "of_int \<lfloor>?y\<rfloor> \<le> ?y" and c: "?y < of_int \<lfloor>?y\<rfloor> + 1" by linarith+
  consider "?y - of_int \<lfloor>?y\<rfloor> < 1 / 2" | "1 / 2 < ?y - of_int \<lfloor>?y\<rfloor>"
    | "?y - of_int \<lfloor>?y\<rfloor> = 1 / 2" by linarith
  then show ?thesis
  proof cases
    case 1
    then have "py_round tie_up x n = of_int \<lfloor>?y\<rfloor> / 10 ^ n" by (simp add: py_round_def Let_def)
    moreover have "\<bar>of_int \<lfloor>?y\<rfloor> - ?y\<bar> \<le> 1 / 2" using 1 f by linarith
    ultimately show ?thesis by blast
  next
    case 2
    then have "py_round tie_up x n = of_int (\<lfloor>?y\<rfloor> + 1) / 10 ^ n"
      by (simp add: py_round_def Let_def)
    moreover have "\<bar>of_int (\<lfloor>?y\<rfloor> + 1) - ?y\<bar> \<le> 1 / 2" using 2 c by simp
    ultimately show ?thesis by blast
  next
    case 3
    then have "py_round tie_up x n = of_int \<lfloor>?y\<rfloor> / 10 ^ n
               \<or> py_round tie_up x n = of_int (\<lfloor>?y\<rfloor> + 1) / 10 ^ n"
      by (simp add: py_round_def Let_def)
    moreover have "\<bar>of_int \<lfloor>?y\<rfloor> - ?y\<bar> \<le> 1 / 2" using 3 by linarith
    moreover have "\<bar>of_int (\<lfloor>?y\<rfloor> + 1) - ?y\<bar> \<le> 1 / 2" using 3 by simp
    ultimately show ?thesis by blast
  qed
qed

lemma py_round_close: "\<bar>py_round tie_up x n - x\<bar> \<le> 1 / (2 * 10 ^ n)"
proof -
  have p: "(0::real) < 10 ^ n" by simp
  obtain k :: int where k: "py_round tie_up x n = of_int k / 10 ^ n"
    and c: "\<bar>of_int k - x * 10 ^ n\<bar> \<le> 1 / 2"
    using py_round_scaled by blast
  have "\<bar>py_round tie_up x n - x\<bar> = \<bar>of_int k - x * 10 ^ n\<bar> / 10 ^ n"
    using p by (simp add: k field_simps abs_divide)
  also have "\<dots> \<le> (1 / 2) / 10 ^ n"
    by (rule divide_right_mono) (use c in auto)
  finally show ?thesis by simp
qed

lemma py_round_rounded_to: "rounded_to x n (py_round tie_up x n)"
proof -
  obtain k :: int where k: "py_round tie_up x n = of_int k / 10 ^ n"
    using py_round_scaled by blast
  have "py_round tie_up x n * 10 ^ n = of_int k" by (simp add: k)
  then show ?thesis using py_round_close [of tie_up x n] by (simp add: rounded_to_def)
qed

text \<open>
  Away from a tie the two conditions of \<open>rounded_to\<close> leave one value only; at a tie
  they leave the two neighbours, and the parameter picks one: 1/80 to 3 decimals is
  0.013 when the tie goes up and 0.012 when it goes down.
\<close>

lemma py_round_tie_directions:
  "py_round always_up (1 / 80) 3 = 13 / 1000"
  "py_round (\<lambda>x n. False) (1 / 80) 3 = 12 / 1000"
  by (simp_all add: py_round_def always_up_def)

lemma final_score_bounds:
  fixes sim mood_sc genre_sc pop :: real
  assumes "0 \<le> sim" "sim \<le> 1" "mood_sc \<in> {0, 3 / 10, 1}" "genre_sc \<in> {0, 1}"
    "0 \<le> pop" "pop \<le> 100"
  shows "0 \<le> 45 / 100 * sim + 25 / 100 * mood_sc + 15 / 100 * genre_sc + 15 / 100 * (pop / 100)"
    and "45 / 100 * sim + 25 / 100 * mood_sc + 15 / 100 * genre_sc + 15 / 100 * (pop / 100) \<le> 1"
  using assms by auto

text \<open>
  C5. When the cosine similarity of the two vectors is in [0, 1] and the popularity of
  the song (50 when the row has none) is in [0, 100], the final score
  0.45 * similarity + 0.25 * mood_match + 0.15 * genre_match + 0.15 * (popularity / 100)
  is in [0, 1]; the mood match is 0, 0.3 or 1 and the genre match 0 or 1 for every input.
  The breakdown has exactly the five names, and holds under each the component (or the
  final score) rounded to 4 decimals: a multiple of 0.0001 at most 0.00005 from it.
\<close>

theorem score_candidate_song_in_unit_interval:
  assumes "cosine_similarity user_vector (build_feature_vector (map_of (numeric song)) True)
             = Inr sim"
    and "0 \<le> sim" and "sim \<le> 1"
    and "0 \<le> num_get song ''popularity'' 50" and "num_get song ''popularity'' 50 \<le> 100"
  shows "\<exists>final bd mood_sc genre_sc pop_sc.
           score_candidate_song tie_up song user_vector target_mood user_genres
             = Inr (final, bd)
           \<and> mood_sc = mood_match_score (txt_get song ''mood_bucket'' '''') target_mood
           \<and> mood_sc \<in> {0, 3 / 10, 1}
           \<and> genre_sc = genre_match_score (txt_get song ''genre'' '''') user_genres
           \<and> genre_sc \<in> {0, 1}
           \<and> pop_sc = num_get song ''popularity'' 50 / 100
           \<and> final = 45 / 100 * sim + 25 / 100 * mood_sc + 15 / 100 * genre_sc
                       + 15 / 100 * pop_sc
           \<and> 0 \<le> final \<and> final \<le> 1
           \<and> dom bd = {''audio_similarity'', ''mood_match'', ''genre_match'', ''popularity'',
                        ''final_score''}
           \<and> (\<exists>v. bd ''audio_similarity'' = Some v \<and> rounded_to sim 4 v)
           \<and> (\<exists>v. bd ''mood_match'' = Some v \<and> rounded_to mood_sc 4 v)
           \<and> (\<exists>v. bd ''genre_match'' = Some v \<and> rounded_to genre_sc 4 v)
           \<and> (\<exists>v. bd ''popularity'' = Some v \<and> rounded_to pop_sc 4 v)
           \<and> (\<exists>v. bd ''final_score'' = Some v \<and> rounded_to final 4 v)"
proof -
  let ?m = "mood_match_score (txt_get song ''mood_bucket'' '''') target_mood"
  let ?g = "genre_match_score (txt_get song ''genre'' '''') user_genres"
  let ?p = "num_get song ''popularity'' 50"
  let ?f = "45 / 100 * sim + 25 / 100 * ?m + 15 / 100 * ?g + 15 / 100 * (?p / 100)"
  let ?bd = "[''audio_similarity'' \<mapsto> py_round tie_up sim 4,
              ''mood_match'' \<mapsto> py_round tie_up ?m 4,
              ''genre_match'' \<mapsto> py_round tie_up ?g 4,
              ''popularity'' \<mapsto> py_round tie_up (?p / 100) 4,
              ''final_score'' \<mapsto> py_round tie_up ?f 4]"
  have s: "score_candidate_song tie_up song user_vector target_mood user_genres = Inr (?f, ?bd)"
    using assms(1) by (simp add: score_candidate_song_def Let_def)
  have lo: "0 \<le> ?f" and hi: "?f \<le> 1"
    using final_score_bounds [OF assms(2,3) mood_match_score_range genre_match_score_range
        assms(4,5)] by blast+
  have d: "dom ?bd = {''audio_similarity'', ''mood_match'', ''genre_match'', ''popularity'',
                      ''final_score''}"
    by auto
  have e1: "\<exists>v. ?bd ''audio_similarity'' = Some v \<and> rounded_to sim 4 v"
    by (simp add: py_round_rounded_to)
  have e2: "\<exists>v. ?bd ''mood_match'' = Some v \<and> rounded_to ?m 4 v"
    by (simp add: py_round_rounded_to)
  have e3: "\<exists>v. ?bd ''genre_match'' = Some v \<and> rounded_to ?g 4 v"
    by (simp add: py_round_rounded_to)
  have e4: "\<exists>v. ?bd ''popularity'' = Some v \<and> rounded_to (?p / 100) 4 v"
    by (simp add: py_round_rounded_to)
  have e5: "\<exists>v. ?bd ''final_score'' = Some v \<and> rounded_to ?f 4 v"
    by (simp add: py_round_rounded_to)
  show ?thesis
    using s lo hi d e1 e2 e3 e4 e5
      mood_match_score_range [of "txt_get song ''mood_bucket'' ''''" target_mood]
      genre_match_score_range [of "txt_get song ''genre'' ''''" user_genres]
    by blast
qed

lemma example_song_vector:
  "build_feature_vector (map_of (numeric example_song)) True = [1, 0, 0, 0, 0]"
  by (simp add: example_song_def build_feature_vector_def AUDIO_FEATURES_def
      normalize_tempo_unfold)

lemma example_song_cosine:
  "cosine_similarity [1, 0, 0, 0, 0] (build_feature_vector (map_of (numeric example_song)) True)
     = Inr 1"
  by (simp add: example_song_vector cosine_similarity_def magnitude_def dot_product_def
      py_div_def)

lemma example_song_popularity: "num_get example_song ''popularity'' 50 = 80"
  by (simp add: example_song_def num_get_def)

theorem score_candidate_song_in_unit_interval_witness:
  "cosine_similarity [1, 0, 0, 0, 0]
       (build_feature_vector (map_of (numeric example_song)) True) = Inr 1
   \<and> (0::real) \<le> 1 \<and> (1::real) \<le> 1
   \<and> 0 \<le> num_get example_song ''popularity'' 50
   \<and> num_get example_song ''popularity'' 50 \<le> 100
   \<and> (\<exists>final bd v.
         score_candidate_song always_up example_song [1, 0, 0, 0, 0] ''hype'' [''pop'', ''rock'']
           = Inr (final, bd)
         \<and> 0 \<le> final \<and> final \<le> 1
         \<and> bd ''final_score'' = Some v \<and> rounded_to final 4 v)"
proof -
  have z: "(0::real) \<le> 1" "(1::real) \<le> 1" by simp_all
  have p: "0 \<le> num_get example_song ''popularity'' 50"
    "num_get example_song ''popularity'' 50 \<le> 100"
    by (simp_all add: example_song_popularity)
  have "\<exists>final bd v.
         score_candidate_song always_up example_song [1, 0, 0, 0, 0] ''hype'' [''pop'', ''rock'']
           = Inr (final, bd)
         \<and> 0 \<le> final \<and> final \<le> 1
         \<and> bd ''final_score'' = Some v \<and> rounded_to final 4 v"
    using score_candidate_song_in_unit_interval
      [OF example_song_cosine z p, of always_up "''hype''" "[''pop'', ''rock'']"]
    by (elim exE conjE) (intro exI conjI; assumption)
  then show ?thesis using example_song_cosine z p by blast
qed

lemma cosine_similarity_returns: "\<exists>r. cosine_similarity a b = Inr r"
  by (simp add: cosine_similarity_def py_div_def Let_def)

subsection \<open>Missing popularity\<close>

lemma popular_clause_iff:
  "PopularTrack n \<in> set (generate_explanation song bd user_genres mood activity)
   \<longleftrightarrow> n = py_int (num_get song ''popularity'' 0) \<and> 75 \<le> n"
  unfolding generate_explanation_def Let_def
  by (auto split: option.splits)

lemma py_round_half: "py_round tie_up (1 / 2) 4 = 1 / 2"
  by (simp add: py_round_def)

text \<open>
  C10. For a song row without a popularity entry the popularity component of the score
  is 0.5 (the default 50 divided by 100), recorded as 0.5 in the breakdown and credited
  with weight 0.15 in the final score, while the explanation generator reads the missing
  popularity as 0 and never emits the "Popular track" clause.
\<close>

theorem missing_popularity_score_and_explanation:
  assumes "map_of (numeric song) ''popularity'' = None"
  shows "num_get song ''popularity'' 50 / 100 = 1 / 2
         \<and> (\<exists>sim final bd.
               cosine_similarity user_vector (build_feature_vector (map_of (numeric song)) True)
                 = Inr sim
               \<and> score_candidate_song tie_up song user_vector target_mood user_genres = Inr (final, bd)
               \<and> final = 45 / 100 * sim
                          + 25 / 100 * mood_match_score (txt_get song ''mood_bucket'' '''') target_mood
                          + 15 / 100 * genre_match_score (txt_get song ''genre'' '''') user_genres
                          + 15 / 100 * (1 / 2)
               \<and> bd ''popularity'' = Some (1 / 2))
         \<and> py_int (num_get song ''popularity'' 0) = 0
         \<and> (\<forall>n. PopularTrack n
                  \<notin> set (generate_explanation song bd' genres' mood activity))"
proof -
  have p50: "num_get song ''popularity'' 50 = 50" and p0: "num_get song ''popularity'' 0 = 0"
    using assms by (simp_all add: num_get_def)
  obtain sim where c:
    "cosine_similarity user_vector (build_feature_vector (map_of (numeric song)) True) = Inr sim"
    using cosine_similarity_returns by blast
  have s: "\<exists>final bd.
      score_candidate_song tie_up song user_vector target_mood user_genres = Inr (final, bd)
      \<and> final = 45 / 100 * sim
                 + 25 / 100 * mood_match_score (txt_get song ''mood_bucket'' '''') target_mood
                 + 15 / 100 * genre_match_score (txt_get song ''genre'' '''') user_genres
                 + 15 / 100 * (1 / 2)
      \<and> bd ''popularity'' = Some (1 / 2)"
    using c by (simp add: score_candidate_song_def Let_def p50 py_round_half)
  have i: "py_int (num_get song ''popularity'' 0) = 0"
    by (simp add: p0 py_int_def)
  have e: "\<forall>n. PopularTrack n \<notin> set (generate_explanation song bd' genres' mood activity)"
    by (simp add: popular_clause_iff i)
  show ?thesis using p50 c s i e by auto
qed

theorem missing_popularity_score_and_explanation_witness:
  "map_of (numeric song_without_popularity) ''popularity'' = None
   \<and> num_get song_without_popularity ''popularity'' 50 / 100 = 1 / 2
   \<and> PopularTrack 50
       \<notin> set (generate_explanation song_without_popularity Map.empty [] ''sad'' None)"
  using missing_popularity_score_and_explanation
    [of song_without_popularity "[]" always_up "''sad''" "[]" Map.empty "[]" "''sad''" None]
  by (simp add: song_without_popularity_def)

subsection \<open>Ranking order\<close>

lemma dom_fold_upd:
  "dom (fold (\<lambda>t tf. tf(t \<mapsto> g t)) qs m) = dom m \<union> set qs"
  by (induction qs arbitrary: m) auto

lemma compute_tf_for_doc_dom: "dom (compute_tf_for_doc tokens query_terms) = set query_terms"
  unfolding compute_tf_for_doc_def by (simp add: dom_fold_upd)

lemma tfidf_terms_returns:
  "set terms \<subseteq> dom tf_title \<Longrightarrow> set terms \<subseteq> dom tf_artist \<Longrightarrow>
   \<exists>r. tfidf_terms fw tf_title tf_artist N title_index artist_index terms score = Inr r"
  by (induction terms arbitrary: score) (auto simp: Let_def split: option.splits)

lemma score_doc_tfidf_for_fields_returns:
  "\<exists>r. score_doc_tfidf_for_fields doc query_terms N title_index artist_index field_weights
          title_col artist_col = Inr r"
  unfolding score_doc_tfidf_for_fields_def Let_def
  by (rule tfidf_terms_returns) (simp_all add: compute_tf_for_doc_dom)

lemma score_candidate_song_returns:
  "\<exists>r. score_candidate_song tie_up song user_vector target_mood user_genres = Inr r"
  using cosine_similarity_returns
    [of user_vector "build_feature_vector (map_of (numeric song)) True"]
  by (auto simp: score_candidate_song_def Let_def)

lemma score_candidates_returns:
  assumes "\<And>doc. \<exists>r. f doc = Inr r"
  shows "\<exists>scored. score_candidates f lookup candidates = Inr scored
           \<and> map fst scored
               = filter (\<lambda>tid. case map_of lookup tid of
                                 None \<Rightarrow> False | Some doc \<Rightarrow> \<not> empty_row doc) candidates"
proof (induction candidates)
  case Nil
  show ?case by simp
next
  case (Cons tid tids)
  then obtain scored where s: "score_candidates f lookup tids = Inr scored"
    and m: "map fst scored
              = filter (\<lambda>tid. case map_of lookup tid of
                                None \<Rightarrow> False | Some doc \<Rightarrow> \<not> empty_row doc) tids"
    by blast
  show ?case
  proof (cases "map_of lookup tid")
    case None
    then show ?thesis using s m by simp
  next
    case (Some doc)
    obtain r where "f doc = Inr r" using assms by blast
    then show ?thesis using Some s m by simp
  qed
qed

lemma distinct_map_insort_key:
  "distinct (map g (insort_key f x xs)) \<longleftrightarrow> distinct (map g (x # xs))"
  by (induction xs) (auto simp: set_insort_key)

lemma distinct_map_sort_key: "distinct (map g (sort_key f xs)) \<longleftrightarrow> distinct (map g xs)"
  by (induction xs) (simp_all add: distinct_map_insort_key)

lemma slice_to_take: "\<exists>n. slice_to k xs = take n xs"
  by (auto simp: slice_to_def)

lemma slice_to_length: "0 \<le> k \<Longrightarrow> int (length (slice_to k xs)) \<le> k"
  by (simp add: slice_to_def)

text \<open>
  A list sorted by the key (negated score, track id) whose track ids are distinct is
  strictly ordered: the score decreases, or it stays and the id increases.
\<close>

lemma sorted_key_distinct_strict:
  fixes sc :: "'a \<Rightarrow> real" and tid :: "'a \<Rightarrow> int"
  assumes "sorted (map (\<lambda>x. (- sc x, tid x)) rs)" and "distinct (map tid rs)"
  shows "sorted_wrt (\<lambda>a b. sc b < sc a \<or> (sc a = sc b \<and> tid a < tid b)) rs"
proof -
  have "\<And>i j. i < j \<Longrightarrow> j < length rs \<Longrightarrow>
          sc (rs ! j) < sc (rs ! i) \<or> (sc (rs ! i) = sc (rs ! j) \<and> tid (rs ! i) < tid (rs ! j))"
  proof -
    fix i j assume ij: "i < j" "j < length rs"
    have "map (\<lambda>x. (- sc x, tid x)) rs ! i \<le> map (\<lambda>x. (- sc x, tid x)) rs ! j"
      using assms(1) ij by (intro sorted_nth_mono) auto
    then have le: "(- sc (rs ! i), tid (rs ! i)) \<le> (- sc (rs ! j), tid (rs ! j))"
      using ij by simp
    have "map tid rs ! i \<noteq> map tid rs ! j"
      using assms(2) ij distinct_conv_nth [of "map tid rs"] by auto
    then have ne: "tid (rs ! i) \<noteq> tid (rs ! j)" using ij by simp
    show "sc (rs ! j) < sc (rs ! i) \<or> (sc (rs ! i) = sc (rs ! j) \<and> tid (rs ! i) < tid (rs ! j))"
      using le ne by (auto simp: less_eq_prod_def)
  qed
  then show ?thesis by (simp add: sorted_wrt_iff_nth_less)
qed

lemma ranked_slice_strict:
  fixes sc :: "'a \<Rightarrow> real" and tid :: "'a \<Rightarrow> int"
  assumes "distinct (map tid scored)"
  shows "sorted_wrt (\<lambda>a b. sc b < sc a \<or> (sc a = sc b \<and> tid a < tid b))
           (slice_to k (sort_key (\<lambda>x. (- sc x, tid x)) scored))"
proof -
  obtain n where n: "slice_to k (sort_key (\<lambda>x. (- sc x, tid x)) scored)
                       = take n (sort_key (\<lambda>x. (- sc x, tid x)) scored)"
    using slice_to_take by blast
  have "sorted_wrt (\<lambda>a b. sc b < sc a \<or> (sc a = sc b \<and> tid a < tid b))
          (sort_key (\<lambda>x. (- sc x, tid x)) scored)"
    by (rule sorted_key_distinct_strict) (simp_all add: distinct_map_sort_key assms)
  then show ?thesis unfolding n by (rule sorted_wrt_take)
qed
lemma rank_candidates_with_tfidf_ordered:
  assumes "distinct candidates" and "build_query_terms query_texts \<noteq> []"
  shows "\<exists>rs. rank_candidates_with_tfidf candidates query_texts lookup ixs field_weights
                 title_col artist_col top_k = Inr rs
              \<and> sorted_wrt ranked_before rs
              \<and> (0 \<le> top_k \<longrightarrow> int (length rs) \<le> top_k)"
proof -
  let ?f = "\<lambda>doc. score_doc_tfidf_for_fields doc (build_query_terms query_texts)
                     (unique_doc_count lookup) (ix_title ixs) (ix_artist ixs) field_weights
                     title_col artist_col"
  obtain scored where s: "score_candidates ?f lookup candidates = Inr scored"
    and m: "map fst scored
              = filter (\<lambda>tid. case map_of lookup tid of
                                None \<Rightarrow> False | Some doc \<Rightarrow> \<not> empty_row doc) candidates"
    using score_candidates_returns [of ?f lookup candidates]
      score_doc_tfidf_for_fields_returns by blast
  have d: "distinct (map fst scored)" unfolding m using assms(1) by simp
  have r: "rank_candidates_with_tfidf candidates query_texts lookup ixs field_weights
             title_col artist_col top_k
           = Inr (slice_to top_k (sort_key (\<lambda>x. (- snd x, fst x)) scored))"
    using assms(2) s by (simp add: rank_candidates_with_tfidf_def Let_def)
  have o: "sorted_wrt (\<lambda>a b. snd b < snd a \<or> (snd a = snd b \<and> fst a < fst b))
             (slice_to top_k (sort_key (\<lambda>x. (- snd x, fst x)) scored))"
    using d by (rule ranked_slice_strict)
  have o': "sorted_wrt ranked_before (slice_to top_k (sort_key (\<lambda>x. (- snd x, fst x)) scored))"
    using o by (simp add: ranked_before_def [abs_def])
  show ?thesis using r o' slice_to_length [of top_k] by auto
qed

lemma rank_candidates_by_features_ordered:
  assumes "distinct candidates"
  shows "\<exists>rs. rank_candidates_by_features tie_up candidates lookup profile mood activity top_k = Inr rs
              \<and> sorted_wrt ranked_before (map id_and_score rs)
              \<and> (0 \<le> top_k \<longrightarrow> int (length rs) \<le> top_k)"
proof -
  let ?f = "\<lambda>song. score_candidate_song tie_up song (build_user_audio_vector profile mood activity)
                      mood (case top_genres profile of None \<Rightarrow> [] | Some gs \<Rightarrow> gs)"
  obtain scored where s: "score_candidates ?f lookup candidates = Inr scored"
    and m: "map fst scored
              = filter (\<lambda>tid. case map_of lookup tid of
                                None \<Rightarrow> False | Some doc \<Rightarrow> \<not> empty_row doc) candidates"
    using score_candidates_returns [of ?f lookup candidates]
      score_candidate_song_returns by blast
  have d: "distinct (map fst scored)" unfolding m using assms(1) by simp
  have r: "rank_candidates_by_features tie_up candidates lookup profile mood activity top_k
           = Inr (slice_to top_k (sort_key (\<lambda>x. (- fst (snd x), fst x)) scored))"
    using s by (simp add: rank_candidates_by_features_def Let_def)
  have o: "sorted_wrt (\<lambda>a b. fst (snd b) < fst (snd a)
                              \<or> (fst (snd a) = fst (snd b) \<and> fst a < fst b))
             (slice_to top_k (sort_key (\<lambda>x. (- fst (snd x), fst x)) scored))"
    using d by (rule ranked_slice_strict)
  have o': "sorted_wrt ranked_before
              (map id_and_score (slice_to top_k (sort_key (\<lambda>x. (- fst (snd x), fst x)) scored)))"
    using o by (simp add: sorted_wrt_map ranked_before_def id_and_score_def)
  show ?thesis using r o' slice_to_length [of top_k] by auto
qed

lemma rank_candidates_with_tfidf_no_terms:
  "build_query_terms query_texts = [] \<Longrightarrow>
   rank_candidates_with_tfidf candidates query_texts lookup ixs field_weights
       title_col artist_col top_k
     = Inr (map (\<lambda>tid. (tid, 0)) (slice_to top_k candidates))"
  by (simp add: rank_candidates_with_tfidf_def)

text \<open>
  C4 (as amended). For a candidate list without repeated identifiers, the Feature
  Reranker always, and the Lexical Ranker whenever the query has at least one term,
  return a list in which any two results, adjacent ones in particular, are in the stated
  order: the score strictly decreases, or the scores are equal and the track identifier
  strictly increases. With no query term the Lexical Ranker returns the candidates in
  input order, each with score 0. For a non-negative \<open>top_k\<close> the output has at most
  \<open>top_k\<close> entries.
\<close>

theorem rankers_strictly_ordered:
  assumes "distinct candidates"
  shows
    "(build_query_terms query_texts \<noteq> [] \<longrightarrow>
        (\<exists>rs. rank_candidates_with_tfidf candidates query_texts lookup ixs field_weights
                 title_col artist_col top_k = Inr rs
              \<and> sorted_wrt ranked_before rs \<and> successively ranked_before rs
              \<and> (0 \<le> top_k \<longrightarrow> int (length rs) \<le> top_k)))
     \<and> (build_query_terms query_texts = [] \<longrightarrow>
        rank_candidates_with_tfidf candidates query_texts lookup ixs field_weights
            title_col artist_col top_k
          = Inr (map (\<lambda>tid. (tid, 0)) (slice_to top_k candidates))
        \<and> (0 \<le> top_k \<longrightarrow> int (length (slice_to top_k candidates)) \<le> top_k))
     \<and> (\<exists>rs. rank_candidates_by_features tie_up candidates lookup profile mood activity top_k = Inr rs
              \<and> sorted_wrt ranked_before (map id_and_score rs)
              \<and> successively ranked_before (map id_and_score rs)
              \<and> (0 \<le> top_k \<longrightarrow> int (length rs) \<le> top_k))"
proof -
  have a: "build_query_terms query_texts \<noteq> [] \<longrightarrow>
        (\<exists>rs. rank_candidates_with_tfidf candidates query_texts lookup ixs field_weights
                 title_col artist_col top_k = Inr rs
              \<and> sorted_wrt ranked_before rs \<and> successively ranked_before rs
              \<and> (0 \<le> top_k \<longrightarrow> int (length rs) \<le> top_k))"
    using rank_candidates_with_tfidf_ordered [OF assms] successively_if_sorted_wrt
    by blast
  have b: "build_query_terms query_texts = [] \<longrightarrow>
        rank_candidates_with_tfidf candidates query_texts lookup ixs field_weights
            title_col artist_col top_k
          = Inr (map (\<lambda>tid. (tid, 0)) (slice_to top_k candidates))
        \<and> (0 \<le> top_k \<longrightarrow> int (length (slice_to top_k candidates)) \<le> top_k)"
    using rank_candidates_with_tfidf_no_terms slice_to_length by blast
  have c: "\<exists>rs. rank_candidates_by_features tie_up candidates lookup profile mood activity top_k = Inr rs
              \<and> sorted_wrt ranked_before (map id_and_score rs)
              \<and> successively ranked_before (map id_and_score rs)
              \<and> (0 \<le> top_k \<longrightarrow> int (length rs) \<le> top_k)"
    using rank_candidates_by_features_ordered [OF assms] successively_if_sorted_wrt
    by blast
  from a b c show ?thesis by blast
qed

lemma build_query_terms_examples:
  "build_query_terms [''Love'', ''''] = [''love'']" "build_query_terms [''''] = []"
  by code_simp+

theorem rankers_strictly_ordered_witness:
  "distinct [1, 2 :: int] \<and> build_query_terms [''Love'', ''''] \<noteq> [] \<and> (0::int) \<le> 20
   \<and> (\<exists>rs. rank_candidates_with_tfidf [1, 2] [''Love'', ''''] example_lookup scenario_index
               None ''title'' ''artist_name'' 20 = Inr rs
            \<and> successively ranked_before rs \<and> int (length rs) \<le> 20)
   \<and> build_query_terms [''''] = []
   \<and> rank_candidates_with_tfidf [1, 2] [''''] example_lookup scenario_index
         None ''title'' ''artist_name'' 20 = Inr [(1, 0), (2, 0)]
   \<and> (\<exists>rs. rank_candidates_by_features always_up [1, 2] example_lookup example_profile ''happy''
               (Some ''workout'') 20 = Inr rs
            \<and> successively ranked_before (map id_and_score rs) \<and> int (length rs) \<le> 20)"
proof -
  have d: "distinct [1, 2 :: int]" by simp
  show ?thesis
    using
      rankers_strictly_ordered
        [OF d, of "[''Love'', '''']" example_lookup scenario_index None "''title''"
           "''artist_name''" 20 always_up example_profile "''happy''" "Some ''workout''"]
      rankers_strictly_ordered
        [OF d, of "['''']" example_lookup scenario_index None "''title''"
           "''artist_name''" 20 always_up example_profile "''happy''" "Some ''workout''"]
    by (simp add: build_query_terms_examples slice_to_def) blast
qed

text \<open>
  The claim as stated fails for the Lexical Ranker without query terms: it returns the
  candidates in input order, so candidates 2, 1 come out with equal scores and
  decreasing identifiers.
\<close>

theorem lexical_ranker_order_counterexample:
  "rank_candidates_with_tfidf [2, 1] [''''] example_lookup scenario_index
       None ''title'' ''artist_name'' 20 = Inr [(2, 0), (1, 0)]
   \<and> \<not> successively ranked_before [(2, 0), (1, 0)]"
  by (simp add: rank_candidates_with_tfidf_def build_query_terms_examples slice_to_def
      ranked_before_def)

text \<open>
  The two hypotheses of the amended statement are needed as well. A candidate list that
  repeats an identifier yields two results with the same identifier and the same score,
  and a negative \<open>top_k\<close> cuts entries from the end of the list instead of bounding its
  length.
\<close>

lemma repeated_candidate_not_ordered:
  "\<exists>rs. rank_candidates_by_features tie_up [1, 1] example_lookup example_profile ''happy'' None 20
           = Inr rs
        \<and> \<not> successively ranked_before (map id_and_score rs)"
proof -
  obtain r where r: "score_candidate_song tie_up example_song
                       (build_user_audio_vector example_profile ''happy'' None) ''happy''
                       [''pop'', ''rock''] = Inr r"
    using score_candidate_song_returns by blast
  have e: "\<not> empty_row example_song" by (simp add: empty_row_def example_song_def)
  have "rank_candidates_by_features tie_up [1, 1] example_lookup example_profile ''happy'' None 20
          = Inr [(1, r), (1, r)]"
    using r e
    by (simp add: rank_candidates_by_features_def example_lookup_def example_profile_def
        slice_to_def Let_def)
  then show ?thesis by (simp add: id_and_score_def ranked_before_def)
qed

lemma negative_top_k_not_a_bound:
  "rank_candidates_with_tfidf [1, 2, 3] [''''] example_lookup scenario_index
       None ''title'' ''artist_name'' (- 1) = Inr [(1, 0), (2, 0)]
   \<and> \<not> int (length [(1 :: int, 0 :: real), (2, 0)]) \<le> - 1"
  by (simp add: rank_candidates_with_tfidf_def build_query_terms_examples slice_to_def)

subsection \<open>Time-context confidence\<close>

lemma sum_group_lengths:
  "finite K \<Longrightarrow> f ` set xs \<subseteq> K \<Longrightarrow>
   (\<Sum>k \<in> K. length (filter (\<lambda>x. f x = k) xs)) = length xs"
proof (induction xs)
  case Nil
  then show ?case by simp
next
  case (Cons x xs)
  have "(\<Sum>k \<in> K. length (filter (\<lambda>y. f y = k) (x # xs)))
        = (\<Sum>k \<in> K. (if f x = k then 1 else 0) + length (filter (\<lambda>y. f y = k) xs))"
    by (intro sum.cong) auto
  also have "\<dots> = (\<Sum>k \<in> K. (if f x = k then 1 else 0))
                    + (\<Sum>k \<in> K. length (filter (\<lambda>y. f y = k) xs))"
    by (simp add: sum.distrib)
  also have "\<dots> = 1 + length xs"
    using Cons by (simp add: sum.delta)
  finally show ?case by simp
qed

lemma user_context_keys:
  "map fst (user_context tie_up user_events)
     = sort (remdups (map (\<lambda>r. time_of_day (fst r)) user_events))"
  by (simp add: user_context_def Let_def comp_def)

lemma user_context_total:
  "total_event_count (user_context tie_up user_events) = length user_events"
proof -
  let ?ks = "sort (remdups (map (\<lambda>r. time_of_day (fst r)) user_events))"
  have d: "distinct ?ks" by simp
  have s: "set ?ks = (\<lambda>r. time_of_day (fst r)) ` set user_events" by simp
  have "total_event_count (user_context tie_up user_events)
        = sum_list (map (\<lambda>tod. length (filter (\<lambda>r. time_of_day (fst r) = tod) user_events)) ?ks)"
    by (simp add: total_event_count_def user_context_def Let_def comp_def)
  also have "\<dots> = (\<Sum>tod \<in> set ?ks. length (filter (\<lambda>r. time_of_day (fst r) = tod) user_events))"
    using d by (rule sum_list_distinct_conv_sum_set)
  also have "\<dots> = length user_events"
    by (rule sum_group_lengths) (simp_all add: s)
  finally show ?thesis .
qed

lemma user_context_confidence:
  "(tod, p) \<in> set (user_context tie_up user_events) \<Longrightarrow>
   confidence p = py_round tie_up (real (event_count p) / real (length user_events)) 3"
  by (auto simp: user_context_def Let_def)

lemma user_context_rounded:
  "(tod, p) \<in> set (user_context tie_up user_events) \<Longrightarrow>
   rounded_to (real (event_count p) / real (length user_events)) 3 (confidence p)"
  using user_context_confidence [of tod p tie_up user_events] py_round_rounded_to by simp

lemma sum_list_abs_diff:
  fixes f g :: "'a \<Rightarrow> real"
  assumes "\<And>x. x \<in> set xs \<Longrightarrow> \<bar>f x - g x\<bar> \<le> c"
  shows "\<bar>sum_list (map f xs) - sum_list (map g xs)\<bar> \<le> real (length xs) * c"
  using assms
proof (induction xs)
  case Nil
  then show ?case by simp
next
  case (Cons x xs)
  have a: "\<bar>f x - g x\<bar> \<le> c" using Cons.prems by simp
  have b: "\<bar>sum_list (map f xs) - sum_list (map g xs)\<bar> \<le> real (length xs) * c"
    using Cons by simp
  have "\<bar>sum_list (map f (x # xs)) - sum_list (map g (x # xs))\<bar>
        \<le> \<bar>f x - g x\<bar> + \<bar>sum_list (map f xs) - sum_list (map g xs)\<bar>"
    by simp
  also have "\<dots> \<le> c + real (length xs) * c" using a b by simp
  finally show ?case by (simp add: algebra_simps)
qed

lemma sum_list_divide:
  fixes f :: "'a \<Rightarrow> real"
  shows "sum_list (map (\<lambda>x. f x / c) xs) = sum_list (map f xs) / c"
  by (induction xs) (simp_all add: add_divide_distrib)

lemma real_sum_list:
  "real (sum_list (map f xs)) = sum_list (map (\<lambda>x. real (f x)) xs)"
  by (induction xs) simp_all

lemma user_context_sum:
  assumes "user_events \<noteq> []"
  shows "\<bar>confidence_sum (user_context tie_up user_events) - 1\<bar>
           \<le> real (length (user_context tie_up user_events)) * (1 / 2000)"
proof -
  let ?n = "real (length user_events)"
  let ?ctx = "user_context tie_up user_events"
  have n: "0 < ?n" using assms by simp
  have "sum_list (map (\<lambda>(tod, p). real (event_count p) / ?n) ?ctx)
        = sum_list (map (\<lambda>(tod, p). real (event_count p)) ?ctx) / ?n"
    by (simp add: case_prod_unfold sum_list_divide)
  also have "sum_list (map (\<lambda>(tod, p). real (event_count p)) ?ctx)
             = real (total_event_count ?ctx)"
    by (simp add: total_event_count_def case_prod_unfold real_sum_list)
  also have "\<dots> / ?n = 1"
    using n by (simp add: user_context_total)
  finally have one: "sum_list (map (\<lambda>(tod, p). real (event_count p) / ?n) ?ctx) = 1" .
  have "\<bar>sum_list (map (\<lambda>(tod, p). confidence p) ?ctx)
         - sum_list (map (\<lambda>(tod, p). real (event_count p) / ?n) ?ctx)\<bar>
        \<le> real (length ?ctx) * (1 / 2000)"
  proof (rule sum_list_abs_diff)
    fix x assume "x \<in> set ?ctx"
    then have "confidence (snd x) = py_round tie_up (real (event_count (snd x)) / ?n) 3"
      using user_context_confidence [of "fst x" "snd x" tie_up user_events] by simp
    then show "\<bar>(case x of (tod, p) \<Rightarrow> confidence p)
                - (case x of (tod, p) \<Rightarrow> real (event_count p) / ?n)\<bar> \<le> 1 / 2000"
      using py_round_close [of tie_up "real (event_count (snd x)) / ?n" 3]
      by (simp add: case_prod_unfold)
  qed
  then show ?thesis by (simp add: confidence_sum_def one)
qed
lemma fold_profiles_lookup:
  "fold (\<lambda>user_id profiles. profiles(lower user_id \<mapsto> g user_id)) keys m uid = Some ctx
   \<Longrightarrow> m uid = Some ctx \<or> (\<exists>k \<in> set keys. lower k = uid \<and> ctx = g k)"
proof (induction keys arbitrary: m)
  case Nil
  then show ?case by simp
next
  case (Cons a keys)
  from Cons.prems
  have "fold (\<lambda>user_id profiles. profiles(lower user_id \<mapsto> g user_id)) keys
          (m(lower a \<mapsto> g a)) uid = Some ctx"
    by (simp only: fold_simps comp_apply)
  then have "(m(lower a \<mapsto> g a)) uid = Some ctx
             \<or> (\<exists>k \<in> set keys. lower k = uid \<and> ctx = g k)"
    by (rule Cons.IH)
  then show ?case by (cases "lower a = uid") auto
qed

lemma build_time_context_profiles_lookup:
  assumes "build_time_context_profiles tie_up events sessions uid = Some user_ctx"
  shows "\<exists>user_events. user_events \<noteq> [] \<and> user_ctx = user_context tie_up user_events"
proof -
  let ?meaningful = "filter (\<lambda>r. event_type (fst r) = ''play'' \<and> \<not> skipped (fst r))
                       (merge_left events sessions)"
  let ?g = "\<lambda>user_id. user_context tie_up (filter (\<lambda>r. ev_user_id (fst r) = user_id) ?meaningful)"
  let ?keys = "sort (remdups (map (\<lambda>r. ev_user_id (fst r)) ?meaningful))"
  from assms
  have "fold (\<lambda>user_id profiles. profiles(lower user_id \<mapsto> ?g user_id)) ?keys Map.empty uid
        = Some user_ctx"
    unfolding build_time_context_profiles_def Let_def .
  then have "Map.empty uid = Some user_ctx \<or> (\<exists>k \<in> set ?keys. lower k = uid \<and> user_ctx = ?g k)"
    by (rule fold_profiles_lookup)
  moreover have "(Map.empty :: string \<rightharpoonup> (string \<times> slot_profile) list) uid \<noteq> Some user_ctx"
    by simp
  ultimately obtain k where k: "k \<in> set ?keys" and c: "user_ctx = ?g k"
    by blast
  from k have "k \<in> (\<lambda>r. ev_user_id (fst r)) ` set ?meaningful" by simp
  then have "filter (\<lambda>r. ev_user_id (fst r) = k) ?meaningful \<noteq> []"
    unfolding filter_empty_conv by blast
  then show ?thesis using c by blast
qed

lemma user_context_counts_positive:
  assumes "(tod, p) \<in> set (user_context tie_up user_events)"
  shows "0 < event_count p"
proof -
  from assms obtain r where r: "r \<in> set user_events" and t: "tod = time_of_day (fst r)"
    and p: "event_count p = length (filter (\<lambda>r. time_of_day (fst r) = tod) user_events)"
    by (auto simp: user_context_def Let_def)
  have "filter (\<lambda>r. time_of_day (fst r) = tod) user_events \<noteq> []"
    unfolding filter_empty_conv using r t by blast
  then show ?thesis using p by simp
qed

text \<open>
  C6. For every user in the output of the profiler, each timeslot listed has at least
  one played, unskipped event; its stored confidence is its event count divided by the
  user's total event count, rounded to 3 decimals (a multiple of 0.001 at most 0.0005
  from the fraction); the unrounded fractions sum to exactly 1, and the stored
  confidences sum to 1 within the rounding tolerance of 0.0005 for each timeslot listed.
\<close>

theorem time_context_confidence_sums_to_one:
  assumes "build_time_context_profiles tie_up events sessions uid = Some user_ctx"
  shows "0 < total_event_count user_ctx
         \<and> (\<forall>(tod, p) \<in> set user_ctx.
               0 < event_count p
               \<and> rounded_to (real (event_count p) / real (total_event_count user_ctx)) 3
                     (confidence p))
         \<and> sum_list (map (\<lambda>(tod, p). real (event_count p) / real (total_event_count user_ctx))
                          user_ctx) = 1
         \<and> \<bar>confidence_sum user_ctx - 1\<bar> \<le> real (length user_ctx) * (1 / 2000)"
proof -
  obtain user_events where ne: "user_events \<noteq> []" and c: "user_ctx = user_context tie_up user_events"
    using build_time_context_profiles_lookup [OF assms] by blast
  have t: "total_event_count user_ctx = length user_events"
    unfolding c by (rule user_context_total)
  have a: "0 < total_event_count user_ctx" using t ne by simp
  have b: "\<forall>(tod, p) \<in> set user_ctx.
               0 < event_count p
               \<and> rounded_to (real (event_count p) / real (total_event_count user_ctx)) 3
                     (confidence p)"
    unfolding t unfolding c
    using user_context_counts_positive user_context_rounded by blast
  have "sum_list (map (\<lambda>(tod, p). real (event_count p) / real (total_event_count user_ctx))
                      user_ctx)
        = real (total_event_count user_ctx) / real (total_event_count user_ctx)"
    by (simp add: case_prod_unfold sum_list_divide total_event_count_def real_sum_list)
  then have s: "sum_list (map (\<lambda>(tod, p). real (event_count p) / real (total_event_count user_ctx))
                      user_ctx) = 1"
    using a by simp
  have d: "\<bar>confidence_sum user_ctx - 1\<bar> \<le> real (length user_ctx) * (1 / 2000)"
    unfolding c using ne by (rule user_context_sum)
  from a b s d show ?thesis by blast
qed

lemma example_profiles:
  "build_time_context_profiles always_up example_events [] ''u1''
     = Some [(''evening'', \<lparr>event_count = 1, confidence = 333 / 1000\<rparr>),
             (''morning'', \<lparr>event_count = 2, confidence = 667 / 1000\<rparr>)]"
  by code_simp

theorem time_context_confidence_sums_to_one_witness:
  "build_time_context_profiles always_up example_events [] ''u1''
     = Some [(''evening'', \<lparr>event_count = 1, confidence = 333 / 1000\<rparr>),
             (''morning'', \<lparr>event_count = 2, confidence = 667 / 1000\<rparr>)]
   \<and> \<bar>confidence_sum [(''evening'', \<lparr>event_count = 1, confidence = 333 / 1000\<rparr>),
                       (''morning'', \<lparr>event_count = 2, confidence = 667 / 1000\<rparr>)] - 1\<bar>
       \<le> 2 * (1 / 2000)"
  using time_context_confidence_sums_to_one [OF example_profiles] example_profiles
  by simp

end
